theory Spec2Isabelle
  imports Complex_Main "HOL-Library.Sublist" "HOL-Library.Multiset"
begin

section \<open>Text: a Python \<open>str\<close> as its list of code points\<close>

text \<open>
  A Python \<open>str\<close> is a sequence of Unicode code points, and the program's currency
  literal lies outside the 8-bit \<^typ>\<open>char\<close>; so a text is the list of its code points
  as natural numbers, and \<open>ascii\<close> reads an ASCII literal. \<open>str.lower\<close> is modelled on
  the ASCII letters and the classes \<open>\d\<close> and \<open>\s\<close> on ASCII digits and on Python's
  white space; every other code point is carried through unchanged (Python also
  lower-cases letters of other scripts and reads their decimal digits).
\<close>

type_synonym pystr = "nat list"

definition ascii :: "string \<Rightarrow> pystr" where
  "ascii s = map of_char s"

definition lower_char :: "nat \<Rightarrow> nat" where
  "lower_char c = (if 65 \<le> c \<and> c \<le> 90 then c + 32 else c)"

definition lower :: "pystr \<Rightarrow> pystr" where
  "lower s = map lower_char s"

text \<open>\<open>needle in haystack\<close> on Python strings.\<close>

fun str_in :: "pystr \<Rightarrow> pystr \<Rightarrow> bool" where
  "str_in needle [] = (needle = [])"
| "str_in needle (c # cs) = (prefix needle (c # cs) \<or> str_in needle cs)"

definition startswith :: "pystr \<Rightarrow> pystr \<Rightarrow> bool" where
  "startswith s pre = prefix pre s"

text \<open>\<open>s.replace(',', '')\<close>\<close>

definition strip_commas :: "pystr \<Rightarrow> pystr" where
  "strip_commas s = filter (\<lambda>c. c \<noteq> 44) s"

definition is_digit :: "nat \<Rightarrow> bool" where
  "is_digit c = (48 \<le> c \<and> c \<le> 57)"

text \<open>The code points for which \<open>str.isspace\<close> holds, which is the class \<open>\s\<close>.\<close>

definition is_space :: "nat \<Rightarrow> bool" where
  "is_space c =
     ((9 \<le> c \<and> c \<le> 13) \<or> (28 \<le> c \<and> c \<le> 32) \<or> c = 0x85 \<or> c = 0xA0 \<or> c = 0x1680 \<or>
      (0x2000 \<le> c \<and> c \<le> 0x200A) \<or> c = 0x2028 \<or> c = 0x2029 \<or> c = 0x202F \<or>
      c = 0x205F \<or> c = 0x3000)"

text \<open>
  The currency literal of \<open>src/main.py\<close>, written there (lines 31, 90, 91 and 103) as the
  three code points U+00E2, U+201A, U+00B9; the same with the capital U+00C2, which the
  literal matches under \<open>re.IGNORECASE\<close>; and the rupee sign U+20B9.
\<close>

definition rupee_literal :: pystr where
  "rupee_literal = [0xE2, 0x201A, 0xB9]"

definition rupee_literal_upper :: pystr where
  "rupee_literal_upper = [0xC2, 0x201A, 0xB9]"

definition rupee_sign :: pystr where
  "rupee_sign = [0x20B9]"

section \<open>\<open>float()\<close> on the numerals the patterns capture\<close>

datatype py_error = ValueError

text \<open>
  \<open>float(s)\<close> for a text of ASCII digits with at most one decimal point, which is all
  the two patterns of the program can hand to it once the commas are removed. The result
  is the exact decimal value; Python rounds it to the nearest binary64 number, which
  leaves every integer below \<open>2^53\<close> unchanged and keeps \<open>\<le>\<close>. A text without any digit
  raises \<open>ValueError\<close>; so does, in this model, any text with another character.
\<close>

definition digits_val :: "pystr \<Rightarrow> nat" where
  "digits_val s = foldl (\<lambda>n c. 10 * n + (c - 48)) 0 s"

definition py_float :: "pystr \<Rightarrow> py_error + rat" where
  "py_float s =
     (let ip = takeWhile (\<lambda>c. c \<noteq> 46) s;
          fp = drop 1 (dropWhile (\<lambda>c. c \<noteq> 46) s)
      in if list_all is_digit (ip @ fp) \<and> ip @ fp \<noteq> []
         then Inr (of_nat (digits_val (ip @ fp)) / 10 ^ length fp)
         else Inl ValueError)"

section \<open>The regular expressions\<close>

text \<open>
  \<open>re.search\<close> is a backtracking matcher: it tries the start positions from left to
  right and, at each, the alternatives of the pattern in priority order (a greedy
  repetition takes the longest run first and gives characters back one by one, an
  optional group is tried before it is skipped). Each piece of a pattern is a function
  that takes the continuation \<open>k\<close> for the rest of the pattern; \<open>None\<close> is failure and
  makes the caller try its next alternative. The text captured so far by the open group
  is the accumulator \<open>acc\<close>.
\<close>

text \<open>\<open>P*\<close>, greedy.\<close>

fun many :: "(nat \<Rightarrow> bool) \<Rightarrow> (pystr \<Rightarrow> pystr \<Rightarrow> 'r option) \<Rightarrow> pystr \<Rightarrow> pystr \<Rightarrow> 'r option" where
  "many P k acc [] = k acc []"
| "many P k acc (c # cs) =
     (if P c
      then (case many P k (acc @ [c]) cs of Some r \<Rightarrow> Some r | None \<Rightarrow> k acc (c # cs))
      else k acc (c # cs))"

text \<open>\<open>P+\<close>, greedy.\<close>

definition many1 :: "(nat \<Rightarrow> bool) \<Rightarrow> (pystr \<Rightarrow> pystr \<Rightarrow> 'r option) \<Rightarrow> pystr \<Rightarrow> pystr \<Rightarrow> 'r option" where
  "many1 P k acc s =
     (case s of [] \<Rightarrow> None | c # cs \<Rightarrow> if P c then many P k (acc @ [c]) cs else None)"

text \<open>An ASCII literal under \<open>re.IGNORECASE\<close>.\<close>

definition lit_ci :: "pystr \<Rightarrow> (pystr \<Rightarrow> 'r option) \<Rightarrow> pystr \<Rightarrow> 'r option" where
  "lit_ci w k s =
     (if lower (take (length w) s) = lower w then k (drop (length w) s) else None)"

text \<open>\<open>(?:m)?\<close>: the group first, then without it.\<close>

definition optional :: "((pystr \<Rightarrow> 'r option) \<Rightarrow> pystr \<Rightarrow> 'r option) \<Rightarrow> (pystr \<Rightarrow> 'r option) \<Rightarrow> pystr \<Rightarrow> 'r option" where
  "optional m k s = (case m k s of Some r \<Rightarrow> Some r | None \<Rightarrow> k s)"

text \<open>\<open>between\s+\<close>\<close>

definition between_kw :: "(pystr \<Rightarrow> 'r option) \<Rightarrow> pystr \<Rightarrow> 'r option" where
  "between_kw k s = lit_ci (ascii ''between'') (many1 is_space (\<lambda>_. k) []) s"

text \<open>The currency literal, in either case of its first code point.\<close>

definition glyph :: "(pystr \<Rightarrow> 'r option) \<Rightarrow> pystr \<Rightarrow> 'r option" where
  "glyph k s =
     (if prefix rupee_literal s \<or> prefix rupee_literal_upper s
      then k (drop (length rupee_literal) s) else None)"

text \<open>\<open>(?:\.\d+)?\<close> inside a capturing group.\<close>

definition opt_fraction :: "(pystr \<Rightarrow> pystr \<Rightarrow> 'r option) \<Rightarrow> pystr \<Rightarrow> pystr \<Rightarrow> 'r option" where
  "opt_fraction k acc s =
     (case (case s of [] \<Rightarrow> None
            | c # cs \<Rightarrow> if c = 46 then many1 is_digit k (acc @ [c]) cs else None) of
        Some r \<Rightarrow> Some r
      | None \<Rightarrow> k acc s)"

text \<open>The capturing group \<open>(\d+[,\d]*(?:\.\d+)?)\<close>; \<open>k\<close> receives the captured text.\<close>

definition price_number :: "(pystr \<Rightarrow> pystr \<Rightarrow> 'r option) \<Rightarrow> pystr \<Rightarrow> 'r option" where
  "price_number k s =
     many1 is_digit (many (\<lambda>c. c = 44 \<or> is_digit c) (opt_fraction k)) [] s"

text \<open>\<open>(?:to|-|and)\<close>\<close>

definition separator :: "(pystr \<Rightarrow> 'r option) \<Rightarrow> pystr \<Rightarrow> 'r option" where
  "separator k s =
     (case lit_ci (ascii ''to'') k s of Some r \<Rightarrow> Some r
      | None \<Rightarrow> (case lit_ci (ascii ''-'') k s of Some r \<Rightarrow> Some r
      | None \<Rightarrow> lit_ci (ascii ''and'') k s))"

text \<open>
  The pattern of \<open>extract_price_range\<close>, matched at the start of \<open>s\<close>:
  \<^verbatim>\<open>(?:between\s+)?(?:G)?(\d+[,\d]*(?:\.\d+)?)\s*(?:to|-|and)\s*(?:G)?(\d+[,\d]*(?:\.\d+)?)\<close>
  with \<open>G\<close> the currency literal. The result is the pair of the two groups.
\<close>

definition price_pattern :: "pystr \<Rightarrow> (pystr \<times> pystr) option" where
  "price_pattern s =
     optional between_kw
       (optional glyph
         (price_number (\<lambda>g1.
            many is_space (\<lambda>_.
              separator
                (many is_space (\<lambda>_.
                   optional glyph
                     (price_number (\<lambda>g2 _. Some (g1, g2)))) [])) []))) s"

text \<open>\<open>re.search\<close>: the first start position at which the pattern matches.\<close>

fun re_search :: "(pystr \<Rightarrow> 'r option) \<Rightarrow> pystr \<Rightarrow> 'r option" where
  "re_search p [] = p []"
| "re_search p (c # cs) = (case p (c # cs) of Some r \<Rightarrow> Some r | None \<Rightarrow> re_search p cs)"

text \<open>\<open>\.?\<close> inside a match, followed by \<open>k\<close>.\<close>

definition opt_dot :: "(pystr \<Rightarrow> pystr \<Rightarrow> 'r option) \<Rightarrow> pystr \<Rightarrow> pystr \<Rightarrow> 'r option" where
  "opt_dot k acc s =
     (case (case s of [] \<Rightarrow> None | c # cs \<Rightarrow> if c = 46 then k (acc @ [c]) cs else None) of
        Some r \<Rightarrow> Some r
      | None \<Rightarrow> k acc s)"

text \<open>
  The pattern of \<open>ensure_rupee_format\<close>, \<^verbatim>\<open>[\d,]+\.?\d*\<close>, matched at the start of \<open>s\<close>;
  the result is the matched text (\<open>price_value.group()\<close>).
\<close>

definition usd_pattern :: "pystr \<Rightarrow> pystr option" where
  "usd_pattern s =
     many1 (\<lambda>c. is_digit c \<or> c = 44) (opt_dot (many is_digit (\<lambda>acc _. Some acc))) [] s"

section \<open>\<open>extract_price_range\<close>\<close>

text \<open>
  The Python function returns the pair \<open>(None, None)\<close> or a pair of two floats. The
  conversion by \<open>float\<close> is the only call that can raise.
\<close>

definition extract_price_range :: "pystr \<Rightarrow> py_error + (rat option \<times> rat option)" where
  "extract_price_range user_preferences =
     (case re_search price_pattern user_preferences of
        Some (g1, g2) \<Rightarrow>
          (case py_float (strip_commas g1) of
             Inl e \<Rightarrow> Inl e
           | Inr min_price \<Rightarrow>
               (case py_float (strip_commas g2) of
                  Inl e \<Rightarrow> Inl e
                | Inr max_price \<Rightarrow> Inr (Some min_price, Some max_price)))
      | None \<Rightarrow> Inr (None, None))"

section \<open>\<open>build_search_query\<close>\<close>

definition colors :: "pystr list" where
  "colors = map ascii [''silver'', ''space grey'', ''space gray'', ''gold'', ''black'',
     ''white'', ''blue'', ''green'', ''purple'', ''red'']"

definition build_search_query :: "pystr \<Rightarrow> pystr \<Rightarrow> pystr" where
  "build_search_query base_product user_preferences =
     (let query = base_product;
          query = (if str_in (ascii ''pro'') (lower user_preferences)
                   then query @ ascii '' Pro'' else query);
          query = (if str_in (ascii ''air'') (lower user_preferences)
                   then query @ ascii '' Air'' else query);
          query = (if str_in (ascii ''16'') user_preferences
                      \<or> str_in (ascii ''16-inch'') (lower user_preferences)
                   then query @ ascii '' 16-inch'' else query);
          query = (if str_in (ascii ''14'') user_preferences
                      \<or> str_in (ascii ''14-inch'') (lower user_preferences)
                   then query @ ascii '' 14-inch'' else query);
          query = (if str_in (ascii ''13'') user_preferences
                      \<or> str_in (ascii ''13-inch'') (lower user_preferences)
                   then query @ ascii '' 13-inch'' else query);
          query = (if str_in (ascii ''512'') user_preferences
                   then query @ ascii '' 512GB''
                   else if str_in (ascii ''1tb'') (lower user_preferences)
                      \<or> str_in (ascii ''1 tb'') (lower user_preferences)
                   then query @ ascii '' 1TB''
                   else if str_in (ascii ''2tb'') (lower user_preferences)
                      \<or> str_in (ascii ''2 tb'') (lower user_preferences)
                   then query @ ascii '' 2TB''
                   else query);
          query = (if str_in (ascii ''16gb'') (lower user_preferences)
                      \<or> str_in (ascii ''16 gb'') (lower user_preferences)
                   then query @ ascii '' 16GB''
                   else if str_in (ascii ''32gb'') (lower user_preferences)
                      \<or> str_in (ascii ''32 gb'') (lower user_preferences)
                   then query @ ascii '' 32GB''
                   else query);
          query = fold (\<lambda>color query.
                     if str_in color (lower user_preferences)
                     then query @ ascii '' '' @ color else query) colors query
      in query)"

section \<open>\<open>ensure_rupee_format\<close>\<close>

text \<open>
  The parameter \<open>inr_text\<close> stands for the binary64 arithmetic and formatting of the
  conversion branch: \<open>inr_text x\<close> is the text of \<open>f"{x * 83.5:,.2f}"\<close> for the float
  \<open>x\<close>. The bare \<open>except: pass\<close> keeps the text when \<open>float\<close> raises.
\<close>

definition ensure_rupee_format :: "(rat \<Rightarrow> pystr) \<Rightarrow> pystr \<Rightarrow> pystr" where
  "ensure_rupee_format inr_text price_str =
     (if price_str = [] \<or> price_str = ascii ''N/A'' then ascii ''N/A''
      else
        let price_str = (if \<not> startswith price_str rupee_literal
                         then rupee_literal @ price_str else price_str);
            price_str =
              (if str_in (ascii ''$'') price_str
               then (case re_search usd_pattern price_str of
                       Some price_value \<Rightarrow>
                         (case py_float (strip_commas price_value) of
                            Inr price_in_usd \<Rightarrow> rupee_literal @ inr_text price_in_usd
                          | Inl _ \<Rightarrow> price_str)
                     | None \<Rightarrow> price_str)
               else price_str)
        in price_str)"

section \<open>Listings and \<open>fetch_shopping_results\<close>\<close>

text \<open>
  A listing is the dictionary of one shopping result; an absent key is \<open>None\<close>. The keys
  the functions below do not read (rating, reviews, thumbnail, link, extensions) are left
  out.
\<close>

record product =
  title :: "pystr option"
  source :: "pystr option"
  price :: "pystr option"
  old_price :: "pystr option"
  match_score :: "int option"

text \<open>
  The request of the search call. The source renders the price range as the text
  \<open>min,max\<close>; the record keeps the two numbers.
\<close>

record search_params =
  engine :: pystr
  q :: pystr
  api_key :: pystr
  location :: pystr
  gl :: pystr
  hl :: pystr
  currency :: pystr
  price_range :: "(rat \<times> rat) option"

text \<open>
  The outbound call \<open>GoogleSearch(params).get_dict()\<close>: \<open>Inl e\<close> when it raises an
  exception with message \<open>e\<close>, otherwise the value of the key \<open>shopping_results\<close> of the
  response (\<open>None\<close> when the key is absent).
\<close>

type_synonym search_api = "search_params \<Rightarrow> pystr + product list option"

definition search_request :: "pystr \<Rightarrow> pystr \<Rightarrow> rat option \<Rightarrow> rat option \<Rightarrow> search_params" where
  "search_request serpapi_key query min_price max_price =
     \<lparr>engine = ascii ''google_shopping'', q = query, api_key = serpapi_key,
      location = ascii ''New Delhi,Delhi,India'', gl = ascii ''in'', hl = ascii ''en'',
      currency = ascii ''INR'',
      price_range = (case (min_price, max_price) of
                       (Some lo, Some hi) \<Rightarrow> Some (lo, hi)
                     | _ \<Rightarrow> None)\<rparr>"

definition normalize_prices :: "(rat \<Rightarrow> pystr) \<Rightarrow> product \<Rightarrow> product" where
  "normalize_prices inr_text result =
     result\<lparr>price := map_option (ensure_rupee_format inr_text) (price result),
            old_price := map_option (ensure_rupee_format inr_text) (old_price result)\<rparr>"

text \<open>
  The state is the list of the notices shown by \<open>st.error\<close>. The \<open>try\<close> block is the
  whole body; the handler catches every \<open>Exception\<close>.
\<close>

definition fetch_shopping_results ::
  "search_api \<Rightarrow> (rat \<Rightarrow> pystr) \<Rightarrow> pystr \<Rightarrow> pystr \<Rightarrow> rat option \<Rightarrow> rat option \<Rightarrow> pystr list
     \<Rightarrow> pystr list \<times> product list" where
  "fetch_shopping_results api inr_text serpapi_key query min_price max_price notices =
     (case api (search_request serpapi_key query min_price max_price) of
        Inl e \<Rightarrow> (notices @ [ascii ''Error fetching shopping results: '' @ e], [])
      | Inr results \<Rightarrow>
          (let shopping_results = (case results of None \<Rightarrow> [] | Some rs \<Rightarrow> rs)
           in (notices, map (normalize_prices inr_text) shopping_results)))"

section \<open>\<open>filter_results\<close>\<close>

definition preferred_sellers :: "pystr list" where
  "preferred_sellers = map ascii [''amazon'', ''flipkart'', ''croma'', ''vijay sales'',
     ''reliance digital'', ''apple'']"

definition title_lower :: "product \<Rightarrow> pystr" where
  "title_lower product = lower (case title product of Some t \<Rightarrow> t | None \<Rightarrow> [])"

definition source_lower :: "product \<Rightarrow> pystr" where
  "source_lower product = lower (case source product of Some s \<Rightarrow> s | None \<Rightarrow> [])"

text \<open>The body of the loop of \<open>filter_results\<close>: the score of one listing.\<close>

definition score_product :: "pystr \<Rightarrow> product \<Rightarrow> int" where
  "score_product preferences_lower product =
     (let title_lower = title_lower product;
          source_lower = source_lower product;
          score = 0;
          score = (if str_in (ascii ''pro'') preferences_lower \<and> str_in (ascii ''pro'') title_lower
                   then score + 5 else score);
          score = (if str_in (ascii ''air'') preferences_lower \<and> str_in (ascii ''air'') title_lower
                   then score + 5 else score);
          score = (if str_in (ascii ''16'') preferences_lower
                      \<and> (str_in (ascii ''16'') title_lower \<or> str_in (ascii ''16-inch'') title_lower)
                   then score + 4 else score);
          score = (if str_in (ascii ''14'') preferences_lower
                      \<and> (str_in (ascii ''14'') title_lower \<or> str_in (ascii ''14-inch'') title_lower)
                   then score + 4 else score);
          score = (if str_in (ascii ''13'') preferences_lower
                      \<and> (str_in (ascii ''13'') title_lower \<or> str_in (ascii ''13-inch'') title_lower)
                   then score + 4 else score);
          score = (if str_in (ascii ''512'') preferences_lower \<and> str_in (ascii ''512'') title_lower
                   then score + 3 else score);
          score = (if (str_in (ascii ''1tb'') preferences_lower \<or> str_in (ascii ''1 tb'') preferences_lower)
                      \<and> (str_in (ascii ''1tb'') title_lower \<or> str_in (ascii ''1 tb'') title_lower)
                   then score + 3 else score);
          score = (if (str_in (ascii ''2tb'') preferences_lower \<or> str_in (ascii ''2 tb'') preferences_lower)
                      \<and> (str_in (ascii ''2tb'') title_lower \<or> str_in (ascii ''2 tb'') title_lower)
                   then score + 3 else score);
          score = (if (str_in (ascii ''16gb'') preferences_lower \<or> str_in (ascii ''16 gb'') preferences_lower)
                      \<and> (str_in (ascii ''16gb'') title_lower \<or> str_in (ascii ''16 gb'') title_lower)
                   then score + 2 else score);
          score = (if (str_in (ascii ''32gb'') preferences_lower \<or> str_in (ascii ''32 gb'') preferences_lower)
                      \<and> (str_in (ascii ''32gb'') title_lower \<or> str_in (ascii ''32 gb'') title_lower)
                   then score + 2 else score);
          score = fold (\<lambda>color score.
                     if str_in color preferences_lower \<and> str_in color title_lower
                     then score + 3 else score) colors score;
          score = fold (\<lambda>seller score.
                     if str_in seller source_lower then score + 3 else score)
                   preferred_sellers score;
          score = (if str_in (ascii ''new'') preferences_lower
                      \<and> (str_in (ascii ''refurbished'') title_lower \<or> str_in (ascii ''used'') title_lower)
                   then score - 10 else score)
      in score)"

text \<open>\<open>x.get("match_score", 0)\<close>, the sort key.\<close>

definition score_key :: "product \<Rightarrow> int" where
  "score_key x = (case match_score x of Some s \<Rightarrow> s | None \<Rightarrow> 0)"

text \<open>
  \<open>sorted(xs, key=key, reverse=True)\<close>. CPython reverses the list, sorts it with its
  stable ascending sort and reverses the result; a stable sort is determined by its
  input, so the insertion sort \<^const>\<open>sort_key\<close> stands for it.
\<close>

definition sorted_reverse :: "('a \<Rightarrow> int) \<Rightarrow> 'a list \<Rightarrow> 'a list" where
  "sorted_reverse key xs = rev (sort_key key (rev xs))"

definition filter_results :: "product list \<Rightarrow> pystr \<Rightarrow> product list" where
  "filter_results products user_preferences =
     (let preferences_lower = lower user_preferences;
          filtered_products =
            map (\<lambda>product. product\<lparr>match_score := Some (score_product preferences_lower product)\<rparr>)
              products
      in sorted_reverse score_key filtered_products)"

section \<open>Notions used in the properties\<close>

text \<open>What the loop of \<open>filter_results\<close> does to one listing.\<close>

definition assign_score :: "pystr \<Rightarrow> product \<Rightarrow> product" where
  "assign_score user_preferences product =
     product\<lparr>match_score := Some (score_product (lower user_preferences) product)\<rparr>"

text \<open>
  The suffixes \<open>build_search_query\<close> appends for a preference text, in order: the
  tokens it has detected.
\<close>

definition query_suffixes :: "pystr \<Rightarrow> pystr list" where
  "query_suffixes user_preferences =
     (if str_in (ascii ''pro'') (lower user_preferences) then [ascii '' Pro''] else []) @
     (if str_in (ascii ''air'') (lower user_preferences) then [ascii '' Air''] else []) @
     (if str_in (ascii ''16'') user_preferences
         \<or> str_in (ascii ''16-inch'') (lower user_preferences)
      then [ascii '' 16-inch''] else []) @
     (if str_in (ascii ''14'') user_preferences
         \<or> str_in (ascii ''14-inch'') (lower user_preferences)
      then [ascii '' 14-inch''] else []) @
     (if str_in (ascii ''13'') user_preferences
         \<or> str_in (ascii ''13-inch'') (lower user_preferences)
      then [ascii '' 13-inch''] else []) @
     (if str_in (ascii ''512'') user_preferences then [ascii '' 512GB'']
      else if str_in (ascii ''1tb'') (lower user_preferences)
         \<or> str_in (ascii ''1 tb'') (lower user_preferences)
      then [ascii '' 1TB'']
      else if str_in (ascii ''2tb'') (lower user_preferences)
         \<or> str_in (ascii ''2 tb'') (lower user_preferences)
      then [ascii '' 2TB'']
      else []) @
     (if str_in (ascii ''16gb'') (lower user_preferences)
         \<or> str_in (ascii ''16 gb'') (lower user_preferences)
      then [ascii '' 16GB'']
      else if str_in (ascii ''32gb'') (lower user_preferences)
         \<or> str_in (ascii ''32 gb'') (lower user_preferences)
      then [ascii '' 32GB'']
      else []) @
     concat (map (\<lambda>color. if str_in color (lower user_preferences)
                            then [ascii '' '' @ color] else []) colors)"

definition storage_suffixes :: "pystr list" where
  "storage_suffixes = [ascii '' 512GB'', ascii '' 1TB'', ascii '' 2TB'']"

text \<open>
  The suffixes that stand behind another in an \<open>elif\<close> chain of \<open>build_search_query\<close>.
\<close>

definition displaceable_suffixes :: "pystr list" where
  "displaceable_suffixes = [ascii '' 1TB'', ascii '' 2TB'', ascii '' 32GB'']"

text \<open>
  The scoring rubric as a table. A row is the markers looked for in the preference text,
  the markers looked for in the listing, and the points.
\<close>

type_synonym rubric_row = "pystr list \<times> pystr list \<times> int"

definition screen16_row :: rubric_row where
  "screen16_row = ([ascii ''16''], [ascii ''16'', ascii ''16-inch''], 4)"

definition ram16_row :: rubric_row where
  "ram16_row = ([ascii ''16gb'', ascii ''16 gb''], [ascii ''16gb'', ascii ''16 gb''], 2)"

definition attribute_rubric :: "rubric_row list" where
  "attribute_rubric =
     [([ascii ''pro''], [ascii ''pro''], 5),
      ([ascii ''air''], [ascii ''air''], 5),
      screen16_row,
      ([ascii ''14''], [ascii ''14'', ascii ''14-inch''], 4),
      ([ascii ''13''], [ascii ''13'', ascii ''13-inch''], 4),
      ([ascii ''512''], [ascii ''512''], 3),
      ([ascii ''1tb'', ascii ''1 tb''], [ascii ''1tb'', ascii ''1 tb''], 3),
      ([ascii ''2tb'', ascii ''2 tb''], [ascii ''2tb'', ascii ''2 tb''], 3),
      ram16_row,
      ([ascii ''32gb'', ascii ''32 gb''], [ascii ''32gb'', ascii ''32 gb''], 2)]
     @ map (\<lambda>color. ([color], [color], 3)) colors"

text \<open>
  A row is matched when the lower-cased preference text contains one of its preference
  markers and the lower-cased field of the listing contains one of its listing markers.
\<close>

definition row_matched :: "pystr \<Rightarrow> pystr \<Rightarrow> rubric_row \<Rightarrow> bool" where
  "row_matched preferences_l field_l row =
     (case row of (xs, ys, pts) \<Rightarrow>
        list_ex (\<lambda>x. str_in x preferences_l) xs \<and> list_ex (\<lambda>y. str_in y field_l) ys)"

definition row_points :: "pystr \<Rightarrow> pystr \<Rightarrow> rubric_row \<Rightarrow> int" where
  "row_points preferences_l field_l row =
     (case row of (xs, ys, pts) \<Rightarrow> if row_matched preferences_l field_l row then pts else 0)"

definition seller_points :: "pystr \<Rightarrow> int" where
  "seller_points source_l =
     (\<Sum>seller\<leftarrow>preferred_sellers. if str_in seller source_l then 3 else 0)"

definition penalty_matched :: "pystr \<Rightarrow> pystr \<Rightarrow> bool" where
  "penalty_matched preferences_l title_l =
     (str_in (ascii ''new'') preferences_l
      \<and> (str_in (ascii ''refurbished'') title_l \<or> str_in (ascii ''used'') title_l))"

text \<open>The rubric read with the title as the field of every attribute row.\<close>

definition rubric_score :: "pystr \<Rightarrow> product \<Rightarrow> int" where
  "rubric_score preferences_l product =
     (\<Sum>row\<leftarrow>attribute_rubric. row_points preferences_l (title_lower product) row)
     + seller_points (source_lower product)
     + (if penalty_matched preferences_l (title_lower product) then - 10 else 0)"

text \<open>
  The shape of a price numeral, \<open>\d+[,\d]*(?:\.\d+)?\<close>, and its decimal value: its
  digits read as one number, over ten to the number of decimals.
\<close>

definition price_literal :: "pystr \<Rightarrow> bool" where
  "price_literal g =
     (let ip = takeWhile (\<lambda>c. c \<noteq> 46) g; fp = dropWhile (\<lambda>c. c \<noteq> 46) g
      in ip \<noteq> [] \<and> is_digit (hd ip) \<and> list_all (\<lambda>c. c = 44 \<or> is_digit c) ip
         \<and> (fp = [] \<or> (tl fp \<noteq> [] \<and> list_all is_digit (tl fp))))"

definition literal_value :: "pystr \<Rightarrow> rat" where
  "literal_value g =
     of_nat (digits_val (filter is_digit g)) / 10 ^ length (tl (dropWhile (\<lambda>c. c \<noteq> 46) g))"

text \<open>The end-to-end scenario of the specification: its preference text and listing.\<close>

definition scenario_preferences :: pystr where
  "scenario_preferences =
     ascii ''Do you prefer MacBook Pro or MacBook Air?: Pro. What screen size...?: 16-inch. What's your budget...?: between ''
     @ rupee_sign @ ascii ''1,50,000 and '' @ rupee_sign @ ascii ''2,00,000.''"

definition scenario_listing :: product where
  "scenario_listing =
     \<lparr>title = Some (ascii ''MacBook Pro 16-inch 512GB Silver''), source = Some (ascii ''Amazon''),
      price = None, old_price = None, match_score = None\<rparr>"

section \<open>Substring search\<close>

lemma str_in_sublist: "str_in needle hay \<longleftrightarrow> sublist needle hay"
  by (induction hay) (simp_all add: sublist_Cons_right)

lemma str_in_append_right: "str_in needle hay \<Longrightarrow> str_in needle (hay @ rest)"
  unfolding str_in_sublist sublist_def by (metis append.assoc)

lemma str_in_append_left: "str_in needle hay \<Longrightarrow> str_in needle (rest @ hay)"
  unfolding str_in_sublist sublist_def by (metis append.assoc)

lemma str_in_trans: "str_in a b \<Longrightarrow> str_in b c \<Longrightarrow> str_in a c"
  unfolding str_in_sublist by (rule sublist_order.order_trans)

lemma str_in_single: "str_in [c] hay \<longleftrightarrow> c \<in> set hay"
  by (induction hay) auto

lemma lower_append: "lower (a @ b) = lower a @ lower b"
  by (simp add: lower_def)

lemmas text_defs = ascii_def lower_def lower_char_def

lemmas regex_defs = price_pattern_def optional_def between_kw_def glyph_def
  lit_ci_def many1_def price_number_def opt_fraction_def separator_def is_digit_def is_space_def
  rupee_literal_def rupee_literal_upper_def rupee_sign_def
  py_float_def strip_commas_def digits_val_def usd_pattern_def opt_dot_def

lemmas score_defs = score_product_def title_lower_def source_lower_def colors_def
  preferred_sellers_def

lemmas rubric_defs = rubric_score_def attribute_rubric_def row_points_def row_matched_def
  screen16_row_def ram16_row_def seller_points_def penalty_matched_def title_lower_def
  source_lower_def colors_def preferred_sellers_def

section \<open>Ranking\<close>

lemma sorted_reverse_mset: "mset (sorted_reverse key xs) = mset xs"
  by (simp add: sorted_reverse_def)

lemma sorted_reverse_descending:
  "sorted_wrt (\<lambda>a b. key a \<ge> key b) (sorted_reverse key xs)"
proof -
  have "sorted (map key (sort_key key (rev xs)))" by simp
  then have "sorted_wrt (\<lambda>a b. key a \<le> key b) (sort_key key (rev xs))"
    by (simp add: sorted_map)
  then show ?thesis
    unfolding sorted_reverse_def by (simp add: sorted_wrt_rev)
qed

lemma sorted_reverse_stable:
  "filter (\<lambda>x. key x = v) (sorted_reverse key xs) = filter (\<lambda>x. key x = v) xs"
  by (simp add: sorted_reverse_def rev_filter [symmetric] sort_key_stable)

text \<open>
  C2. \<open>filter_results\<close> returns the input listings, each with its score assigned and
  none dropped or added, in descending order of score; and for every score the listings
  with that score come out in the order in which they came in (the sort is stable).
\<close>

theorem filter_results_stable_ranking:
  "mset (filter_results products user_preferences)
     = mset (map (assign_score user_preferences) products)
   \<and> sorted_wrt (\<lambda>a b. score_key a \<ge> score_key b) (filter_results products user_preferences)
   \<and> (\<forall>v. filter (\<lambda>x. score_key x = v) (filter_results products user_preferences)
         = map (assign_score user_preferences)
             (filter (\<lambda>x. score_product (lower user_preferences) x = v) products))"
proof -
  have fr: "filter_results products user_preferences
      = sorted_reverse score_key (map (assign_score user_preferences) products)"
    by (simp add: filter_results_def assign_score_def [abs_def] Let_def)
  have key: "score_key (assign_score user_preferences x)
      = score_product (lower user_preferences) x" for x
    by (simp add: score_key_def assign_score_def)
  show ?thesis
    unfolding fr
    by (simp add: sorted_reverse_mset sorted_reverse_descending sorted_reverse_stable
        filter_map comp_def key)
qed

theorem filter_results_stable_ranking_witness:
  "filter (\<lambda>x. score_key x = 8)
     (filter_results
        [\<lparr>title = Some (ascii ''MacBook Air 13''), source = Some (ascii ''iStore''),
            price = None, old_price = None, match_score = None\<rparr>,
         \<lparr>title = Some (ascii ''MacBook Pro 16''), source = Some (ascii ''Amazon''),
            price = None, old_price = None, match_score = None\<rparr>,
         \<lparr>title = Some (ascii ''MacBook Pro 14''), source = Some (ascii ''Flipkart''),
            price = None, old_price = None, match_score = None\<rparr>]
        (ascii ''Pro''))
   = [\<lparr>title = Some (ascii ''MacBook Pro 16''), source = Some (ascii ''Amazon''),
            price = None, old_price = None, match_score = Some 8\<rparr>,
      \<lparr>title = Some (ascii ''MacBook Pro 14''), source = Some (ascii ''Flipkart''),
            price = None, old_price = None, match_score = Some 8\<rparr>]"
proof -
  let ?air = "\<lparr>title = Some (ascii ''MacBook Air 13''), source = Some (ascii ''iStore''),
            price = None, old_price = None, match_score = None\<rparr>"
  let ?pro16 = "\<lparr>title = Some (ascii ''MacBook Pro 16''), source = Some (ascii ''Amazon''),
            price = None, old_price = None, match_score = None\<rparr>"
  let ?pro14 = "\<lparr>title = Some (ascii ''MacBook Pro 14''), source = Some (ascii ''Flipkart''),
            price = None, old_price = None, match_score = None\<rparr>"
  have scores: "score_product (lower (ascii ''Pro'')) ?air = 0"
    "score_product (lower (ascii ''Pro'')) ?pro16 = 8"
    "score_product (lower (ascii ''Pro'')) ?pro14 = 8"
    by (simp_all add: score_defs text_defs)
  from filter_results_stable_ranking [of "[?air, ?pro16, ?pro14]" "ascii ''Pro''"]
  have "filter (\<lambda>x. score_key x = 8) (filter_results [?air, ?pro16, ?pro14] (ascii ''Pro''))
      = map (assign_score (ascii ''Pro''))
          (filter (\<lambda>x. score_product (lower (ascii ''Pro'')) x = 8) [?air, ?pro16, ?pro14])"
    by blast
  then show ?thesis
    by (simp add: scores assign_score_def)
qed

section \<open>Fetching\<close>

text \<open>
  C9. When the outbound search call raises, whatever the query and the price bounds,
  \<open>fetch_shopping_results\<close> returns the empty list of listings and has added one error
  notice for the user; the function itself returns normally.
\<close>

theorem fetch_error_is_caught:
  assumes "api (search_request serpapi_key query min_price max_price) = Inl e"
  shows "fetch_shopping_results api inr_text serpapi_key query min_price max_price notices
         = (notices @ [ascii ''Error fetching shopping results: '' @ e], [])"
  using assms by (simp add: fetch_shopping_results_def)

theorem fetch_error_is_caught_witness:
  "fetch_shopping_results (\<lambda>_. Inl (ascii ''timed out'')) (\<lambda>_. [])
     (ascii ''key'') (ascii ''MacBook M3 Pro'') (Some 150000) (Some 200000) []
   = ([ascii ''Error fetching shopping results: '' @ ascii ''timed out''], [])"
  using fetch_error_is_caught [of "\<lambda>_. Inl (ascii ''timed out'')" "ascii ''key''"
      "ascii ''MacBook M3 Pro''" "Some 150000" "Some 200000" "ascii ''timed out''" "\<lambda>_. []" "[]"]
  by simp

section \<open>The query\<close>

lemma fold_append_each:
  "fold (\<lambda>x acc. acc @ g x) xs acc = acc @ concat (map g xs)"
  by (induction xs arbitrary: acc) simp_all

lemma if_append_else_self: "(if c then acc @ x else acc) = acc @ (if c then x else [])"
  by simp

lemma if_append_both: "(if c then acc @ x else acc @ y) = acc @ (if c then x else y)"
  by simp

lemma concat_if: "concat (if c then xs else ys) = (if c then concat xs else concat ys)"
  by simp

lemma concat_map_if:
  "concat (concat (map (\<lambda>x. if P x then [f x] else []) xs))
     = concat (map (\<lambda>x. if P x then f x else []) xs)"
  by (induction xs) simp_all

lemma build_search_query_suffixes:
  "build_search_query base_product user_preferences
     = base_product @ concat (query_suffixes user_preferences)"
  unfolding build_search_query_def query_suffixes_def
  apply (simp only: if_append_else_self if_append_both)
  apply (simp only: Let_def fold_append_each)
  apply (simp only: concat_append concat_if concat_map_if concat.simps append_Nil2 append_assoc)
  done

lemma filter_if: "filter P (if c then xs else ys) = (if c then filter P xs else filter P ys)"
  by simp

text \<open>
  C5. Whatever the base product, for a preference text with a 512GB marker and a 1TB
  marker the query is the base product followed by the detected suffixes, and exactly one
  of them is a storage size: \<open>512GB\<close>.
\<close>

theorem storage_suffix_exclusive:
  assumes "str_in (ascii ''512'') user_preferences"
    and "str_in (ascii ''1tb'') (lower user_preferences)
         \<or> str_in (ascii ''1 tb'') (lower user_preferences)"
  shows "build_search_query base_product user_preferences
           = base_product @ concat (query_suffixes user_preferences)
       \<and> filter (\<lambda>s. s \<in> set storage_suffixes) (query_suffixes user_preferences)
           = [ascii '' 512GB'']"
proof
  show "build_search_query base_product user_preferences
           = base_product @ concat (query_suffixes user_preferences)"
    by (rule build_search_query_suffixes)
  show "filter (\<lambda>s. s \<in> set storage_suffixes) (query_suffixes user_preferences)
           = [ascii '' 512GB'']"
    unfolding query_suffixes_def
    using assms(1)
    by (simp add: filter_if storage_suffixes_def colors_def ascii_def
        split del: if_split cong del: if_weak_cong)
qed



theorem storage_suffix_exclusive_witness:
  "str_in (ascii ''512'') (ascii ''512GB or 1TB'')
   \<and> str_in (ascii ''1tb'') (lower (ascii ''512GB or 1TB''))
   \<and> build_search_query (ascii ''MacBook'') (ascii ''512GB or 1TB'')
       = ascii ''MacBook'' @ concat (query_suffixes (ascii ''512GB or 1TB''))
   \<and> filter (\<lambda>s. s \<in> set storage_suffixes) (query_suffixes (ascii ''512GB or 1TB''))
       = [ascii '' 512GB'']"
proof -
  have h1: "str_in (ascii ''512'') (ascii ''512GB or 1TB'')"
    by (simp add: text_defs)
  have h2: "str_in (ascii ''1tb'') (lower (ascii ''512GB or 1TB''))"
    by (simp add: text_defs)
  from storage_suffix_exclusive [OF h1 disjI1 [OF h2], of "ascii ''MacBook''"] h1 h2
  show ?thesis by simp
qed

lemma build_search_query_512_and_1tb:
  "build_search_query (ascii ''MacBook'') (ascii ''512GB or 1TB'') = ascii ''MacBook 512GB''"
  by (simp add: build_search_query_def colors_def text_defs)

section \<open>Monotonicity of detection\<close>

lemma lower_mono: "str_in x (lower t) \<Longrightarrow> str_in x (lower (t @ k))"
  by (simp add: lower_append str_in_append_right)

lemma diff_subset_append:
  "set A - D \<subseteq> set A' \<Longrightarrow> set B - D \<subseteq> set B' \<Longrightarrow> set (A @ B) - D \<subseteq> set (A' @ B')"
  by auto

lemma single_mono:
  "(c \<longrightarrow> c') \<Longrightarrow> set (if c then [x] else []) - D \<subseteq> set (if c' then [x] else [])"
  by (cases c; cases c'; simp)

lemma concat_mono:
  "(\<forall>x. P x \<longrightarrow> P' x)
   \<Longrightarrow> set (concat (map (\<lambda>x. if P x then [f x] else []) xs)) - D
       \<subseteq> set (concat (map (\<lambda>x. if P' x then [f x] else []) xs))"
  by auto

lemma row_matched_mono:
  "row_matched (lower t) field_l row \<Longrightarrow> row_matched (lower (t @ k)) field_l row"
  unfolding row_matched_def
  by (cases row) (auto simp: list_ex_iff intro: lower_mono)


text \<open>
  C7, as amended. Appending any further text \<open>k\<close> to a preference text \<open>t\<close> keeps
  every suffix \<open>build_search_query\<close> had detected, except the three that stand behind
  another in an \<open>elif\<close> chain (1TB and 2TB behind 512GB, 32GB behind 16GB); and it keeps
  every rubric row matched for a listing, and the trigger of the penalty.
\<close>

theorem token_detection_monotone:
  "set (query_suffixes t) - set displaceable_suffixes \<subseteq> set (query_suffixes (t @ k))
   \<and> {row \<in> set attribute_rubric. row_matched (lower t) field_l row}
       \<subseteq> {row \<in> set attribute_rubric. row_matched (lower (t @ k)) field_l row}
   \<and> (penalty_matched (lower t) field_l \<longrightarrow> penalty_matched (lower (t @ k)) field_l)"
proof (intro conjI)
  show "set (query_suffixes t) - set displaceable_suffixes \<subseteq> set (query_suffixes (t @ k))"
    unfolding query_suffixes_def
  proof (intro diff_subset_append single_mono concat_mono)
    show "set (if str_in (ascii ''512'') t then [ascii '' 512GB'']
               else if str_in (ascii ''1tb'') (lower t) \<or> str_in (ascii ''1 tb'') (lower t)
               then [ascii '' 1TB'']
               else if str_in (ascii ''2tb'') (lower t) \<or> str_in (ascii ''2 tb'') (lower t)
               then [ascii '' 2TB''] else []) - set displaceable_suffixes
          \<subseteq> set (if str_in (ascii ''512'') (t @ k) then [ascii '' 512GB'']
               else if str_in (ascii ''1tb'') (lower (t @ k)) \<or> str_in (ascii ''1 tb'') (lower (t @ k))
               then [ascii '' 1TB'']
               else if str_in (ascii ''2tb'') (lower (t @ k)) \<or> str_in (ascii ''2 tb'') (lower (t @ k))
               then [ascii '' 2TB''] else [])"
      by (auto simp: displaceable_suffixes_def dest: str_in_append_right)
    show "set (if str_in (ascii ''16gb'') (lower t) \<or> str_in (ascii ''16 gb'') (lower t)
               then [ascii '' 16GB'']
               else if str_in (ascii ''32gb'') (lower t) \<or> str_in (ascii ''32 gb'') (lower t)
               then [ascii '' 32GB''] else []) - set displaceable_suffixes
          \<subseteq> set (if str_in (ascii ''16gb'') (lower (t @ k)) \<or> str_in (ascii ''16 gb'') (lower (t @ k))
               then [ascii '' 16GB'']
               else if str_in (ascii ''32gb'') (lower (t @ k)) \<or> str_in (ascii ''32 gb'') (lower (t @ k))
               then [ascii '' 32GB''] else [])"
      by (auto simp: displaceable_suffixes_def dest: lower_mono)
  qed (auto dest: lower_mono str_in_append_right)
  show "{row \<in> set attribute_rubric. row_matched (lower t) field_l row}
       \<subseteq> {row \<in> set attribute_rubric. row_matched (lower (t @ k)) field_l row}"
    by (auto intro: row_matched_mono)
  show "penalty_matched (lower t) field_l \<longrightarrow> penalty_matched (lower (t @ k)) field_l"
    by (auto simp: penalty_matched_def dest: lower_mono)
qed


theorem token_detection_monotone_witness:
  "set (query_suffixes (ascii ''Pro 1TB'')) - set displaceable_suffixes
     \<subseteq> set (query_suffixes (ascii ''Pro 1TB'' @ ascii '' 512GB''))
   \<and> {row \<in> set attribute_rubric. row_matched (lower (ascii ''Pro 1TB'')) (ascii ''macbook pro 1tb'') row}
     \<subseteq> {row \<in> set attribute_rubric.
          row_matched (lower (ascii ''Pro 1TB'' @ ascii '' 512GB'')) (ascii ''macbook pro 1tb'') row}
   \<and> ascii '' Pro'' \<in> set (query_suffixes (ascii ''Pro 1TB'')) - set displaceable_suffixes
   \<and> ascii '' Pro'' \<in> set (query_suffixes (ascii ''Pro 1TB'' @ ascii '' 512GB''))"
proof -
  have mem: "ascii '' Pro'' \<in> set (query_suffixes (ascii ''Pro 1TB'')) - set displaceable_suffixes"
    by (simp add: query_suffixes_def displaceable_suffixes_def colors_def text_defs)
  from token_detection_monotone [of "ascii ''Pro 1TB''" "ascii '' 512GB''" "ascii ''macbook pro 1tb''"] mem
  show ?thesis by blast
qed

text \<open>
  The claim as stated fails for the suffixes of \<open>build_search_query\<close>: the text
  \<open>1TB\<close> yields the suffix \<open>1TB\<close>, and with the keyword \<open>512GB\<close> appended the
  suffix \<open>1TB\<close> is gone.
\<close>

theorem token_detection_monotone_counterexample:
  "ascii '' 1TB'' \<in> set (query_suffixes (ascii ''1TB''))
   \<and> ascii '' 1TB'' \<notin> set (query_suffixes (ascii ''1TB'' @ ascii '' 512GB''))
   \<and> build_search_query (ascii ''MacBook'') (ascii ''1TB'') = ascii ''MacBook 1TB''
   \<and> build_search_query (ascii ''MacBook'') (ascii ''1TB'' @ ascii '' 512GB'')
       = ascii ''MacBook 512GB''"
  by (simp add: query_suffixes_def build_search_query_def colors_def text_defs)

section \<open>The scoring rubric\<close>

lemma fold_add_each:
  "fold (\<lambda>x (acc::int). acc + g x) xs acc = acc + sum_list (map g xs)"
  by (induction xs arbitrary: acc) simp_all

lemma if_add_else_self: "(if c then acc + n else acc) = acc + (if c then n else (0::int))"
  by simp

lemma if_diff_else_self: "(if c then acc - n else acc) = acc + (if c then - n else (0::int))"
  by simp

lemma score_product_rubric: "score_product preferences_l product = rubric_score preferences_l product"
  unfolding score_product_def rubric_score_def
  apply (simp only: if_add_else_self if_diff_else_self)
  apply (simp only: Let_def fold_add_each)
  apply (simp add: attribute_rubric_def row_points_def row_matched_def screen16_row_def
      ram16_row_def seller_points_def penalty_matched_def comp_def split del: if_split)
  done

lemma str_in_16_of_16gb: "str_in (ascii ''16gb'') s \<Longrightarrow> str_in (ascii ''16'') s"
proof -
  have "str_in (ascii ''16'') (ascii ''16gb'')" by (simp add: ascii_def)
  then show "str_in (ascii ''16gb'') s \<Longrightarrow> str_in (ascii ''16'') s"
    by (rule str_in_trans)
qed


text \<open>
  C6, as amended. The score is the sum over the rows of the rubric; each attribute row
  (pro, air, the screen sizes, the storage sizes, the RAM sizes, every colour) awards its
  points exactly when the lower-cased preference text contains one of its markers and the
  lower-cased title contains one of its markers. The source is read by the seller row
  only.
\<close>

theorem score_product_follows_rubric:
  "score_product (lower user_preferences) product = rubric_score (lower user_preferences) product"
  by (rule score_product_rubric)

theorem score_product_follows_rubric_witness:
  "score_product (lower (ascii ''Pro, 16-inch, Silver''))
     \<lparr>title = Some (ascii ''MacBook Pro 16-inch 512GB Silver''), source = Some (ascii ''Amazon''),
      price = None, old_price = None, match_score = None\<rparr> = 5 + 4 + 3 + 3"
  using score_product_follows_rubric [of "ascii ''Pro, 16-inch, Silver''"
      "\<lparr>title = Some (ascii ''MacBook Pro 16-inch 512GB Silver''), source = Some (ascii ''Amazon''),
      price = None, old_price = None, match_score = None\<rparr>"]
  by (simp add: rubric_defs text_defs)

text \<open>
  The claim as stated lets the source satisfy an attribute row. It does not: with the
  preference \<open>Pro\<close>, a listing whose source contains \<open>pro\<close> and whose title does not
  is awarded nothing.
\<close>

theorem attribute_rows_ignore_source_counterexample:
  "str_in (ascii ''pro'') (lower (ascii ''Pro''))
   \<and> str_in (ascii ''pro'')
        (source_lower \<lparr>title = Some (ascii ''MacBook M3''), source = Some (ascii ''Gadgets Pro''),
           price = None, old_price = None, match_score = None\<rparr>)
   \<and> score_product (lower (ascii ''Pro''))
        \<lparr>title = Some (ascii ''MacBook M3''), source = Some (ascii ''Gadgets Pro''),
           price = None, old_price = None, match_score = None\<rparr> = 0"
  by (simp add: score_defs text_defs)

text \<open>
  C10. When the lower-cased preference text and the lower-cased title both contain
  \<open>16gb\<close>, the screen-size row for 16 awards its 4 points and the RAM row for 16GB its 2:
  the score is 6 plus the points of all the other rows.
\<close>

theorem ram_marker_scores_screen_size:
  assumes "str_in (ascii ''16gb'') (lower user_preferences)"
    and "str_in (ascii ''16gb'') (title_lower product)"
  shows "row_points (lower user_preferences) (title_lower product) screen16_row = 4
       \<and> row_points (lower user_preferences) (title_lower product) ram16_row = 2
       \<and> score_product (lower user_preferences) product
           = 4 + 2
             + (\<Sum>row\<leftarrow>remove1 screen16_row (remove1 ram16_row attribute_rubric).
                  row_points (lower user_preferences) (title_lower product) row)
             + seller_points (source_lower product)
             + (if penalty_matched (lower user_preferences) (title_lower product) then - 10 else 0)"
proof -
  have s: "row_points (lower user_preferences) (title_lower product) screen16_row = 4"
    using assms by (simp add: row_points_def row_matched_def screen16_row_def str_in_16_of_16gb)
  have r: "row_points (lower user_preferences) (title_lower product) ram16_row = 2"
    using assms by (simp add: row_points_def row_matched_def ram16_row_def)
  have rest: "remove1 screen16_row (remove1 ram16_row attribute_rubric)
      = [([ascii ''pro''], [ascii ''pro''], 5),
      ([ascii ''air''], [ascii ''air''], 5),
      ([ascii ''14''], [ascii ''14'', ascii ''14-inch''], 4),
      ([ascii ''13''], [ascii ''13'', ascii ''13-inch''], 4),
      ([ascii ''512''], [ascii ''512''], 3),
      ([ascii ''1tb'', ascii ''1 tb''], [ascii ''1tb'', ascii ''1 tb''], 3),
      ([ascii ''2tb'', ascii ''2 tb''], [ascii ''2tb'', ascii ''2 tb''], 3),
      ([ascii ''32gb'', ascii ''32 gb''], [ascii ''32gb'', ascii ''32 gb''], 2)]
     @ map (\<lambda>color. ([color], [color], 3)) colors"
    by (simp add: attribute_rubric_def screen16_row_def ram16_row_def ascii_def)
  have "score_product (lower user_preferences) product
      = rubric_score (lower user_preferences) product"
    by (rule score_product_rubric)
  also have "\<dots> = 4 + 2
             + (\<Sum>row\<leftarrow>remove1 screen16_row (remove1 ram16_row attribute_rubric).
                  row_points (lower user_preferences) (title_lower product) row)
             + seller_points (source_lower product)
             + (if penalty_matched (lower user_preferences) (title_lower product) then - 10 else 0)"
    unfolding rest rubric_score_def
    by (simp add: attribute_rubric_def s r split del: if_split)
  finally show ?thesis using s r by simp
qed

theorem ram_marker_scores_screen_size_witness:
  "str_in (ascii ''16gb'') (lower (ascii ''16GB RAM''))
   \<and> str_in (ascii ''16gb'')
        (title_lower \<lparr>title = Some (ascii ''MacBook Air 13 16GB''), source = Some (ascii ''Croma''),
           price = None, old_price = None, match_score = None\<rparr>)
   \<and> row_points (lower (ascii ''16GB RAM''))
        (title_lower \<lparr>title = Some (ascii ''MacBook Air 13 16GB''), source = Some (ascii ''Croma''),
           price = None, old_price = None, match_score = None\<rparr>) screen16_row = 4
   \<and> row_points (lower (ascii ''16GB RAM''))
        (title_lower \<lparr>title = Some (ascii ''MacBook Air 13 16GB''), source = Some (ascii ''Croma''),
           price = None, old_price = None, match_score = None\<rparr>) ram16_row = 2"
proof -
  have h1: "str_in (ascii ''16gb'') (lower (ascii ''16GB RAM''))"
    by (simp add: text_defs)
  have h2: "str_in (ascii ''16gb'')
        (title_lower \<lparr>title = Some (ascii ''MacBook Air 13 16GB''), source = Some (ascii ''Croma''),
           price = None, old_price = None, match_score = None\<rparr>)"
    by (simp add: title_lower_def text_defs)
  from ram_marker_scores_screen_size [OF h1 h2] h1 h2
  show ?thesis by blast
qed

lemma score_16gb_example:
  "score_product (lower (ascii ''16GB RAM''))
     \<lparr>title = Some (ascii ''MacBook Air 13 16GB''), source = Some (ascii ''Croma''),
      price = None, old_price = None, match_score = None\<rparr> = 4 + 2 + 3"
  by (simp add: score_defs text_defs)


section \<open>Currency normalisation\<close>

lemma str_in_dollar: "str_in (ascii ''$'') s \<longleftrightarrow> 36 \<in> set s"
  by (simp add: ascii_def str_in_single)

lemma rupee_prefixed_not_empty_nor_na:
  "startswith s rupee_literal \<Longrightarrow> s \<noteq> [] \<and> s \<noteq> ascii ''N/A''"
  by (auto simp: startswith_def rupee_literal_def ascii_def)

lemma ensure_rupee_format_prefixed:
  assumes "startswith s rupee_literal"
  shows "ensure_rupee_format inr_text s =
     (if str_in (ascii ''$'') s
      then (case re_search usd_pattern s of
              Some price_value \<Rightarrow>
                (case py_float (strip_commas price_value) of
                   Inr price_in_usd \<Rightarrow> rupee_literal @ inr_text price_in_usd
                 | Inl _ \<Rightarrow> s)
            | None \<Rightarrow> s)
      else s)"
  using assms rupee_prefixed_not_empty_nor_na [OF assms]
  by (simp add: ensure_rupee_format_def Let_def)

lemma ensure_rupee_format_of_prefix_step:
  assumes "s \<noteq> []" "s \<noteq> ascii ''N/A''"
  shows "ensure_rupee_format inr_text s
     = ensure_rupee_format inr_text
         (if \<not> startswith s rupee_literal then rupee_literal @ s else s)"
proof (cases "startswith s rupee_literal")
  case True
  then show ?thesis by simp
next
  case False
  have pre: "startswith (rupee_literal @ s) rupee_literal"
    by (simp add: startswith_def)
  show ?thesis
    using False assms
    by (simp add: ensure_rupee_format_prefixed [OF pre])
       (simp add: ensure_rupee_format_def Let_def)
qed

lemma ensure_rupee_format_prefixed_cases:
  assumes "startswith s rupee_literal"
  shows "ensure_rupee_format inr_text s = s
       \<or> (\<exists>x. ensure_rupee_format inr_text s = rupee_literal @ inr_text x)"
  unfolding ensure_rupee_format_prefixed [OF assms]
  by (auto split: option.splits sum.splits)

lemma ensure_rupee_format_converted:
  assumes "\<forall>x. \<not> str_in (ascii ''$'') (inr_text x)"
  shows "ensure_rupee_format inr_text (rupee_literal @ inr_text x) = rupee_literal @ inr_text x"
proof -
  have pre: "startswith (rupee_literal @ inr_text x) rupee_literal"
    by (simp add: startswith_def)
  have "36 \<notin> set rupee_literal" by (simp add: rupee_literal_def)
  moreover have "36 \<notin> set (inr_text x)" using assms by (simp add: str_in_dollar)
  ultimately have "\<not> str_in (ascii ''$'') (rupee_literal @ inr_text x)"
    by (simp add: str_in_dollar)
  then show ?thesis by (simp add: ensure_rupee_format_prefixed [OF pre])
qed

lemma ensure_rupee_format_twice:
  assumes "\<forall>x. \<not> str_in (ascii ''$'') (inr_text x)"
  shows "ensure_rupee_format inr_text (ensure_rupee_format inr_text s)
       = ensure_rupee_format inr_text s"
proof (cases "s = [] \<or> s = ascii ''N/A''")
  case True
  then show ?thesis by (auto simp: ensure_rupee_format_def)
next
  case False
  define s' where "s' = (if \<not> startswith s rupee_literal then rupee_literal @ s else s)"
  have pre: "startswith s' rupee_literal"
    by (simp add: s'_def startswith_def)
  have eq: "ensure_rupee_format inr_text s = ensure_rupee_format inr_text s'"
    using False ensure_rupee_format_of_prefix_step [of s inr_text] by (simp add: s'_def)
  from ensure_rupee_format_prefixed_cases [OF pre, of inr_text]
  show ?thesis
  proof
    assume "ensure_rupee_format inr_text s' = s'"
    then show ?thesis by (simp add: eq)
  next
    assume "\<exists>x. ensure_rupee_format inr_text s' = rupee_literal @ inr_text x"
    then obtain x where "ensure_rupee_format inr_text s' = rupee_literal @ inr_text x" ..
    then show ?thesis
      by (simp add: eq ensure_rupee_format_converted [OF assms])
  qed
qed


text \<open>
  C8. For a price text that already begins with the currency literal of the program (or
  with the rupee sign), normalising twice gives what normalising once gives. The
  hypothesis on \<open>inr_text\<close> says that the rendering of a number holds no dollar sign.
\<close>

theorem ensure_rupee_format_idempotent:
  assumes "\<forall>x. \<not> str_in (ascii ''$'') (inr_text x)"
    and "startswith price_str rupee_literal \<or> startswith price_str rupee_sign"
  shows "ensure_rupee_format inr_text (ensure_rupee_format inr_text price_str)
       = ensure_rupee_format inr_text price_str"
  using assms(1) by (rule ensure_rupee_format_twice)

theorem ensure_rupee_format_idempotent_witness:
  "startswith (rupee_literal @ ascii ''$10.50'') rupee_literal
   \<and> ensure_rupee_format (\<lambda>_. ascii ''876.75'') (rupee_literal @ ascii ''$10.50'')
       = rupee_literal @ ascii ''876.75''
   \<and> ensure_rupee_format (\<lambda>_. ascii ''876.75'')
        (ensure_rupee_format (\<lambda>_. ascii ''876.75'') (rupee_literal @ ascii ''$10.50''))
       = ensure_rupee_format (\<lambda>_. ascii ''876.75'') (rupee_literal @ ascii ''$10.50'')"
proof -
  have h1: "\<forall>x::rat. \<not> str_in (ascii ''$'') (ascii ''876.75'')"
    by (simp add: ascii_def)
  have h2: "startswith (rupee_literal @ ascii ''$10.50'') rupee_literal"
    by (simp add: startswith_def)
  have ev: "ensure_rupee_format (\<lambda>_. ascii ''876.75'') (rupee_literal @ ascii ''$10.50'')
       = rupee_literal @ ascii ''876.75''"
    by (simp add: ensure_rupee_format_def startswith_def regex_defs text_defs)
  from ensure_rupee_format_idempotent [of "\<lambda>_. ascii ''876.75''", OF h1 disjI1 [OF h2]] h2 ev
  show ?thesis by simp
qed


text \<open>
  A price that carries the rupee sign does not begin with the literal of the source, so
  the literal is put in front of it; a second pass changes nothing more.
\<close>

lemma rupee_sign_price_prefixed:
  "ensure_rupee_format inr_text (rupee_sign @ ascii ''1,49,900'')
     = rupee_literal @ rupee_sign @ ascii ''1,49,900''"
  by (simp add: ensure_rupee_format_def startswith_def str_in_dollar rupee_sign_def
      rupee_literal_def ascii_def)

section \<open>The price pattern\<close>














lemma py_float_literal:
  assumes "price_literal g"
  shows "py_float (strip_commas g) = Inr (literal_value g)"
proof -
  define ip where "ip = takeWhile (\<lambda>c. c \<noteq> 46) g"
  define fp where "fp = dropWhile (\<lambda>c. c \<noteq> 46) g"
  define ip' where "ip' = filter (\<lambda>c. c \<noteq> 44) ip"
  have g: "g = ip @ fp" by (simp add: ip_def fp_def)
  from assms have ip: "ip \<noteq> []" "is_digit (hd ip)" "list_all (\<lambda>c. c = 44 \<or> is_digit c) ip"
    and fp: "fp = [] \<or> (tl fp \<noteq> [] \<and> list_all is_digit (tl fp))"
    by (simp_all add: price_literal_def ip_def fp_def Let_def)
  have ip'_digits: "list_all is_digit ip'"
    using ip(3) by (auto simp: ip'_def list_all_iff)
  have "hd ip \<in> set ip'"
    using ip(1,2) by (cases ip) (auto simp: ip'_def is_digit_def)
  then have ip'_ne: "ip' \<noteq> []" by auto
  have ip'_no_dot: "\<forall>c\<in>set ip'. c \<noteq> 46"
    using ip'_digits by (auto simp: list_all_iff is_digit_def)
  have ip'_filter: "filter is_digit ip = ip'"
    unfolding ip'_def using ip(3)
    by (intro filter_cong) (auto simp: list_all_iff is_digit_def)
  show ?thesis
  proof (cases "fp = []")
    case True
    then have s: "strip_commas g = ip'" by (simp add: g strip_commas_def ip'_def)
    have tw: "takeWhile (\<lambda>c. c \<noteq> 46) ip' = ip'" "dropWhile (\<lambda>c. c \<noteq> 46) ip' = []"
      using ip'_no_dot by simp_all
    have "py_float ip' = Inr (of_nat (digits_val ip') / 10 ^ 0)"
      using ip'_digits ip'_ne by (simp add: py_float_def tw)
    moreover have "filter is_digit g = ip'"
      using True ip'_filter by (simp add: g)
    then have "literal_value g = of_nat (digits_val ip') / 10 ^ 0"
      using True by (simp add: literal_value_def fp_def [symmetric])
    ultimately show ?thesis by (simp add: s)
  next
    case False
    with fp have fd: "tl fp \<noteq> []" "list_all is_digit (tl fp)" by simp_all
    from False have "hd fp = 46"
      using hd_dropWhile [of "\<lambda>c. c \<noteq> 46" g] by (simp add: fp_def)
    with False have fp_eq: "fp = 46 # tl fp" by (cases fp) simp_all
    have fd_no_comma: "filter (\<lambda>c. c \<noteq> 44) (tl fp) = tl fp"
      using fd(2) by (auto simp: list_all_iff is_digit_def intro!: filter_True)
    have fd_filter: "filter is_digit (tl fp) = tl fp"
      using fd(2) by (auto simp: list_all_iff intro!: filter_True)
    have s: "strip_commas g = ip' @ 46 # tl fp"
      by (subst g, subst fp_eq) (simp add: strip_commas_def ip'_def fd_no_comma)
    have tw: "takeWhile (\<lambda>c. c \<noteq> 46) (ip' @ 46 # tl fp) = ip'"
      "dropWhile (\<lambda>c. c \<noteq> 46) (ip' @ 46 # tl fp) = 46 # tl fp"
      using ip'_no_dot by simp_all
    have "py_float (ip' @ 46 # tl fp)
        = Inr (of_nat (digits_val (ip' @ tl fp)) / 10 ^ length (tl fp))"
      using ip'_digits ip'_ne fd(2) by (simp add: py_float_def tw)
    moreover have "filter is_digit g = ip' @ tl fp"
      by (subst g, subst fp_eq) (simp add: ip'_filter fd_filter is_digit_def)
    then have "literal_value g = of_nat (digits_val (ip' @ tl fp)) / 10 ^ length (tl fp)"
      by (simp add: literal_value_def fp_def [symmetric])
    ultimately show ?thesis by (simp add: s)
  qed
qed


lemma many_greedy:
  "list_all P xs \<Longrightarrow> rest = [] \<or> \<not> P (hd rest) \<Longrightarrow> k (acc @ xs) rest = Some r
   \<Longrightarrow> many P k acc (xs @ rest) = Some r"
proof (induction xs arbitrary: acc)
  case Nil
  then show ?case by (cases rest) auto
next
  case (Cons x xs)
  from Cons.prems have a: "list_all P xs" "P x" "k ((acc @ [x]) @ xs) rest = Some r"
    by simp_all
  from Cons.IH [OF a(1) Cons.prems(2) a(3)]
  have "many P k (acc @ [x]) (xs @ rest) = Some r" .
  with a(2) show ?case by simp
qed

lemma many1_greedy:
  assumes "xs \<noteq> []" "list_all P xs" "rest = [] \<or> \<not> P (hd rest)" "k (acc @ xs) rest = Some r"
  shows "many1 P k acc (xs @ rest) = Some r"
proof -
  from assms(1) obtain x xs' where xs: "xs = x # xs'" by (cases xs) auto
  with assms have "many P k (acc @ [x]) (xs' @ rest) = Some r"
    by (intro many_greedy) simp_all
  with assms(2) xs show ?thesis by (simp add: many1_def)
qed

lemma is_digit_not_comma_dot: "is_digit c \<Longrightarrow> c \<noteq> 44 \<and> c \<noteq> 46"
  by (auto simp: is_digit_def)

lemma price_number_greedy:
  assumes g: "price_literal g"
    and rest: "rest = [] \<or> (\<not> is_digit (hd rest) \<and> hd rest \<noteq> 44 \<and> hd rest \<noteq> 46)"
    and k: "k g rest = Some r"
  shows "price_number k (g @ rest) = Some r"
proof -
  define ip where "ip = takeWhile (\<lambda>c. c \<noteq> 46) g"
  define fp where "fp = dropWhile (\<lambda>c. c \<noteq> 46) g"
  define d1 where "d1 = takeWhile is_digit ip"
  define r1 where "r1 = dropWhile is_digit ip"
  have g_eq: "g = (d1 @ r1) @ fp" by (simp add: ip_def fp_def d1_def r1_def)
  from g have ip: "ip \<noteq> []" "is_digit (hd ip)" "list_all (\<lambda>c. c = 44 \<or> is_digit c) ip"
    and fp: "fp = [] \<or> (tl fp \<noteq> [] \<and> list_all is_digit (tl fp))"
    by (simp_all add: price_literal_def ip_def fp_def Let_def)
  have d1: "d1 \<noteq> []" "list_all is_digit d1"
    using ip(1,2) by (cases ip; simp add: d1_def list_all_iff; meson set_takeWhileD)+
  have r1: "list_all (\<lambda>c. c = 44 \<or> is_digit c) r1"
    using ip(3) by (auto simp: r1_def list_all_iff dest: set_dropWhileD)
  have r1_hd: "r1 = [] \<or> \<not> is_digit (hd r1)"
    using hd_dropWhile [of is_digit ip] by (auto simp: r1_def)
  have fp_hd: "fp = [] \<or> hd fp = 46"
    using hd_dropWhile [of "\<lambda>c. c \<noteq> 46" g] by (auto simp: fp_def)
  have frac: "opt_fraction k (d1 @ r1) (fp @ rest) = Some r"
  proof (cases "fp = []")
    case True
    with k g_eq have "k (d1 @ r1) rest = Some r" by simp
    with True rest show ?thesis
      by (cases rest) (auto simp: opt_fraction_def)
  next
    case False
    with fp fp_hd have fd: "tl fp \<noteq> []" "list_all is_digit (tl fp)" and fp_eq: "fp = 46 # tl fp"
      by (cases fp; simp)+
    from k g_eq fp_eq have "k (((d1 @ r1) @ [46]) @ tl fp) rest = Some r"
      by (metis append.assoc append_Cons append_Nil)
    with fd rest have "many1 is_digit k ((d1 @ r1) @ [46]) (tl fp @ rest) = Some r"
      by (intro many1_greedy) auto
    then show ?thesis
      by (subst fp_eq) (simp add: opt_fraction_def)
  qed
  have stop2: "fp @ rest = [] \<or> \<not> (hd (fp @ rest) = 44 \<or> is_digit (hd (fp @ rest)))"
    using fp_hd rest by (cases fp) (auto simp: is_digit_def)
  have "many (\<lambda>c. c = 44 \<or> is_digit c) (opt_fraction k) ([] @ d1) (r1 @ fp @ rest) = Some r"
    using r1 stop2 frac by (intro many_greedy) simp_all
  moreover have "r1 @ fp @ rest = [] \<or> \<not> is_digit (hd (r1 @ fp @ rest))"
    using r1_hd fp_hd rest by (cases r1; cases fp) (auto simp: is_digit_def)
  ultimately have "many1 is_digit (many (\<lambda>c. c = 44 \<or> is_digit c) (opt_fraction k)) []
      (d1 @ r1 @ fp @ rest) = Some r"
    using d1 by (intro many1_greedy) simp_all
  then show ?thesis by (simp add: price_number_def g_eq)
qed

lemma digit_not_space: "is_digit c \<Longrightarrow> \<not> is_space c"
  by (simp add: is_digit_def is_space_def)

lemma space_not_digit: "is_space c \<Longrightarrow> \<not> is_digit c \<and> c \<noteq> 44 \<and> c \<noteq> 46"
  by (auto simp: is_digit_def is_space_def)

lemma rupee_literal_hd: "rupee_literal \<noteq> [] \<and> hd rupee_literal = 226 \<and> \<not> is_space 226"
  by (simp add: rupee_literal_def is_space_def)

lemma price_literal_hd: "price_literal g \<Longrightarrow> g \<noteq> [] \<and> is_digit (hd g)"
  by (cases g) (auto simp: price_literal_def Let_def split: if_splits)

lemma lit_ci_match: "lower w' = lower w \<Longrightarrow> lit_ci w k (w' @ rest) = k rest"
proof -
  assume eq: "lower w' = lower w"
  then have "length w' = length w" by (metis length_map lower_def)
  with eq show ?thesis by (simp add: lit_ci_def)
qed

lemma lit_ci_fail:
  assumes "s \<noteq> []" "w \<noteq> []" "lower_char (hd s) \<noteq> lower_char (hd w)"
  shows "lit_ci w k s = None"
  using assms by (cases s; cases w) (auto simp: lit_ci_def lower_def)

lemma glyph_match: "glyph k (rupee_literal @ s) = k s"
  by (simp add: glyph_def)

lemma glyph_fail: "s \<noteq> [] \<Longrightarrow> hd s \<noteq> 226 \<Longrightarrow> hd s \<noteq> 194 \<Longrightarrow> glyph k s = None"
  by (cases s) (auto simp: glyph_def rupee_literal_def rupee_literal_upper_def)

lemma optional_glyph_phrase:
  assumes "cur \<in> {[], rupee_literal}" "s \<noteq> []" "is_digit (hd s)" "k s = Some r"
  shows "optional glyph k (cur @ s) = Some r"
proof (cases "cur = []")
  case True
  from assms(3) have "hd s \<noteq> 226" "hd s \<noteq> 194" by (auto simp: is_digit_def)
  with assms(2) have "glyph k s = None" by (rule glyph_fail)
  with True assms(4) show ?thesis by (simp add: optional_def)
next
  case False
  with assms(1) have "cur = rupee_literal" by simp
  with assms(4) show ?thesis by (simp add: optional_def glyph_match)
qed

lemma separator_phrase:
  assumes "lower sep \<in> set (map ascii [''to'', ''-'', ''and''])" "k rest = Some r"
  shows "separator k (sep @ rest) = Some r"
proof -
  have ne: "sep \<noteq> []" using assms(1) by (auto simp: text_defs)
  have hd_l: "lower_char (hd sep) = hd (lower sep)"
    using ne by (cases sep) (simp_all add: lower_def)
  consider "lower sep = ascii ''to''" | "lower sep = ascii ''-''" | "lower sep = ascii ''and''"
    using assms(1) by auto
  then show ?thesis
  proof cases
    case 1
    then have "lit_ci (ascii ''to'') k (sep @ rest) = k rest"
      by (intro lit_ci_match) (simp add: text_defs)
    then show ?thesis using assms(2) by (simp add: separator_def)
  next
    case 2
    then have "lit_ci (ascii ''to'') k (sep @ rest) = None"
      using ne hd_l by (intro lit_ci_fail) (simp_all add: text_defs)
    moreover have "lit_ci (ascii ''-'') k (sep @ rest) = k rest"
      using 2 by (intro lit_ci_match) (simp add: text_defs)
    ultimately show ?thesis using assms(2) by (simp add: separator_def)
  next
    case 3
    then have "lit_ci (ascii ''to'') k (sep @ rest) = None"
      using ne hd_l by (intro lit_ci_fail) (simp_all add: text_defs)
    moreover have "lit_ci (ascii ''-'') k (sep @ rest) = None"
      using 3 ne hd_l by (intro lit_ci_fail) (simp_all add: text_defs)
    moreover have "lit_ci (ascii ''and'') k (sep @ rest) = k rest"
      using 3 by (intro lit_ci_match) (simp add: text_defs)
    ultimately show ?thesis using assms(2) by (simp add: separator_def)
  qed
qed

lemma separator_hd:
  assumes "lower sep \<in> set (map ascii [''to'', ''-'', ''and''])"
  shows "sep \<noteq> [] \<and> \<not> is_space (hd sep) \<and> \<not> is_digit (hd sep) \<and> hd sep \<noteq> 44 \<and> hd sep \<noteq> 46"
proof -
  have ne: "sep \<noteq> []" using assms by (auto simp: text_defs)
  then obtain c cs where sep: "sep = c # cs" by (cases sep) auto
  with assms have "lower_char c \<in> {116, 45, 97}"
    by (auto simp: ascii_def lower_def)
  then have "c \<in> {116, 84, 45, 97, 65}"
    by (auto simp: lower_char_def split: if_splits)
  then show ?thesis
    by (auto simp: sep is_space_def is_digit_def)
qed

lemma between_kw_phrase:
  assumes "btw = [] \<or> (\<exists>kw ws0. btw = kw @ ws0 \<and> lower kw = ascii ''between''
                           \<and> ws0 \<noteq> [] \<and> list_all is_space ws0)"
    and "s \<noteq> []" "is_digit (hd s) \<or> hd s = 226" "k s = Some r"
  shows "optional between_kw k (btw @ s) = Some r"
proof (cases "btw = []")
  case True
  from assms(3) have "lower_char (hd s) \<noteq> lower_char (hd (ascii ''between''))"
    by (auto simp: text_defs is_digit_def)
  with assms(2) have "between_kw k s = None"
    unfolding between_kw_def by (intro lit_ci_fail) (simp_all add: ascii_def)
  with True assms(4) show ?thesis by (simp add: optional_def)
next
  case False
  with assms(1) obtain kw ws0 where btw: "btw = kw @ ws0" and kw: "lower kw = ascii ''between''"
    and ws0: "ws0 \<noteq> []" "list_all is_space ws0"
    by blast
  from assms(3) have "\<not> is_space (hd s)"
    using digit_not_space rupee_literal_hd by auto
  with ws0 assms(2,4) have "many1 is_space (\<lambda>_. k) [] (ws0 @ s) = Some r"
    by (intro many1_greedy) simp_all
  moreover have "lower kw = lower (ascii ''between'')"
    using kw by (simp add: text_defs)
  ultimately have "between_kw k (kw @ ws0 @ s) = Some r"
    by (simp add: between_kw_def lit_ci_match)
  then show ?thesis by (simp add: optional_def btw)
qed

lemma re_search_here: "p s = Some r \<Longrightarrow> re_search p s = Some r"
  by (cases s) simp_all

lemma price_pattern_phrase:
  assumes a: "price_literal a" and b: "price_literal b"
    and ws: "list_all is_space ws1" "list_all is_space ws2"
    and sep: "lower sep \<in> set (map ascii [''to'', ''-'', ''and''])"
    and cur: "gl1 \<in> {[], rupee_literal}" "gl2 \<in> {[], rupee_literal}"
    and btw: "btw = [] \<or> (\<exists>kw ws0. btw = kw @ ws0 \<and> lower kw = ascii ''between''
                           \<and> ws0 \<noteq> [] \<and> list_all is_space ws0)"
  shows "price_pattern (btw @ gl1 @ a @ ws1 @ sep @ ws2 @ gl2 @ b) = Some (a, b)"
proof -
  let ?second = "price_number (\<lambda>g2 _. Some (a, g2))"
  let ?after_sep = "many is_space (\<lambda>_. optional glyph ?second) []"
  let ?after_first = "\<lambda>g1. many is_space (\<lambda>_. separator
      (many is_space (\<lambda>_. optional glyph (price_number (\<lambda>g2 _. Some (g1, g2)))) [])) []"
  note hd_a = price_literal_hd [OF a] and hd_b = price_literal_hd [OF b]
  note hd_sep = separator_hd [OF sep]
  have "?second (b @ []) = Some (a, b)"
    by (rule price_number_greedy [OF b]) simp_all
  then have "?second b = Some (a, b)" by simp
  with cur(2) hd_b have s1: "optional glyph ?second (gl2 @ b) = Some (a, b)"
    by (intro optional_glyph_phrase) simp_all
  have "gl2 @ b \<noteq> [] \<and> \<not> is_space (hd (gl2 @ b))"
    using cur(2) hd_b digit_not_space rupee_literal_hd by auto
  with ws(2) s1 have s2: "?after_sep (ws2 @ gl2 @ b) = Some (a, b)"
    by (intro many_greedy) simp_all
  from sep s2 have s3: "separator ?after_sep (sep @ ws2 @ gl2 @ b) = Some (a, b)"
    by (rule separator_phrase)
  from hd_sep have "\<not> is_space (hd (sep @ ws2 @ gl2 @ b))" by simp
  with ws(1) s3 have s4: "?after_first a (ws1 @ sep @ ws2 @ gl2 @ b) = Some (a, b)"
    by (intro many_greedy) simp_all
  have "\<not> is_digit (hd (ws1 @ sep @ ws2 @ gl2 @ b)) \<and> hd (ws1 @ sep @ ws2 @ gl2 @ b) \<noteq> 44
      \<and> hd (ws1 @ sep @ ws2 @ gl2 @ b) \<noteq> 46"
    using hd_sep ws(1) space_not_digit by (cases ws1) auto
  with a s4 have s5: "price_number ?after_first (a @ ws1 @ sep @ ws2 @ gl2 @ b) = Some (a, b)"
    by (intro price_number_greedy) simp_all
  have hd5: "a @ ws1 @ sep @ ws2 @ gl2 @ b \<noteq> [] \<and> is_digit (hd (a @ ws1 @ sep @ ws2 @ gl2 @ b))"
    using hd_a by simp
  with cur(1) s5
  have s6: "optional glyph (price_number ?after_first) (gl1 @ a @ ws1 @ sep @ ws2 @ gl2 @ b)
      = Some (a, b)"
    by (intro optional_glyph_phrase) simp_all
  have "gl1 @ a @ ws1 @ sep @ ws2 @ gl2 @ b \<noteq> []
      \<and> (is_digit (hd (gl1 @ a @ ws1 @ sep @ ws2 @ gl2 @ b))
         \<or> hd (gl1 @ a @ ws1 @ sep @ ws2 @ gl2 @ b) = 226)"
    using cur(1) hd_a rupee_literal_hd by auto
  with btw s6
  have "optional between_kw (optional glyph (price_number ?after_first))
      (btw @ gl1 @ a @ ws1 @ sep @ ws2 @ gl2 @ b) = Some (a, b)"
    by (intro between_kw_phrase) simp_all
  then show ?thesis by (simp add: price_pattern_def)
qed

text \<open>
  A phrase \<open>between A to/and/- B\<close>, with or without the word \<open>between\<close>, in any case
  of the letters, with any white space around the separator, and with each numeral bare or
  preceded by the currency literal as the source spells it, yields the values of its two
  numerals.
\<close>

lemma extract_price_range_phrase:
  assumes "price_literal a" and "price_literal b"
    and "list_all is_space ws1" "list_all is_space ws2"
    and "lower sep \<in> set (map ascii [''to'', ''-'', ''and''])"
    and "gl1 \<in> {[], rupee_literal}" "gl2 \<in> {[], rupee_literal}"
    and "btw = [] \<or> (\<exists>kw ws0. btw = kw @ ws0 \<and> lower kw = ascii ''between''
                           \<and> ws0 \<noteq> [] \<and> list_all is_space ws0)"
  shows "extract_price_range (btw @ gl1 @ a @ ws1 @ sep @ ws2 @ gl2 @ b)
       = Inr (Some (literal_value a), Some (literal_value b))"
proof -
  have "re_search price_pattern (btw @ gl1 @ a @ ws1 @ sep @ ws2 @ gl2 @ b) = Some (a, b)"
    by (intro re_search_here price_pattern_phrase assms)
  then show ?thesis
    using assms(1,2) by (simp add: extract_price_range_def py_float_literal)
qed




text \<open>
  C3. The pattern spells the currency glyph as the three code points of the literal in
  the source, so a phrase written with the rupee sign is not recognised: for the phrase
  of the specification's scenario the function returns no bounds, where the claim has
  \<open>(150000.0, 200000.0)\<close>.
\<close>

theorem rupee_sign_phrase_not_extracted:
  "extract_price_range
     (ascii ''between '' @ rupee_sign @ ascii ''1,50,000 and '' @ rupee_sign @ ascii ''2,00,000'')
   = Inr (None, None)"
  by (simp add: extract_price_range_def regex_defs text_defs)

text \<open>The same phrase without a glyph, and with the literal of the source, is extracted.\<close>

lemma plain_phrase_extracted:
  "extract_price_range (ascii ''between 1,50,000 and 2,00,000'')
   = Inr (Some 150000, Some 200000)"
  by (simp add: extract_price_range_def regex_defs text_defs)

lemma source_literal_phrase_extracted:
  "extract_price_range
     (ascii ''between '' @ rupee_literal @ ascii ''1,50,000 and '' @ rupee_literal @ ascii ''2,00,000'')
   = Inr (Some 150000, Some 200000)"
  by (simp add: extract_price_range_def regex_defs text_defs)

section \<open>The end-to-end scenario\<close>

text \<open>On the preference text of the scenario, written with the rupee sign, no price range is found.\<close>

lemma scenario_price_range:
  "extract_price_range scenario_preferences = Inr (None, None)"
  by (simp add: extract_price_range_def scenario_preferences_def regex_defs text_defs)

text \<open>
  C1, as amended. For the preference text and the base product of the scenario,
  \<open>build_search_query\<close> returns \<open>MacBook M3 Pro Air 16-inch\<close> (the text names both
  MacBook Pro and MacBook Air, so both suffixes are detected), and \<open>filter_results\<close>
  gives the listing the score 12.
\<close>

theorem scenario_query_and_score:
  "build_search_query (ascii ''MacBook M3'') scenario_preferences
     = ascii ''MacBook M3 Pro Air 16-inch''
   \<and> filter_results [scenario_listing] scenario_preferences
     = [scenario_listing\<lparr>match_score := Some 12\<rparr>]"
proof
  show "build_search_query (ascii ''MacBook M3'') scenario_preferences
     = ascii ''MacBook M3 Pro Air 16-inch''"
    by (simp add: build_search_query_def scenario_preferences_def colors_def rupee_sign_def
        text_defs)
  have "score_product (lower scenario_preferences) scenario_listing = 12"
    by (simp add: score_defs scenario_preferences_def scenario_listing_def rupee_sign_def
        text_defs)
  then show "filter_results [scenario_listing] scenario_preferences
     = [scenario_listing\<lparr>match_score := Some 12\<rparr>]"
    by (simp add: filter_results_def sorted_reverse_def Let_def)
qed

text \<open>
  The query of the scenario does not contain \<open>MacBook M3 Pro 16-inch\<close>: the suffix
  \<open>Air\<close> stands between \<open>Pro\<close> and the screen size.
\<close>

theorem scenario_query_counterexample:
  "\<not> str_in (ascii ''MacBook M3 Pro 16-inch'')
       (build_search_query (ascii ''MacBook M3'') scenario_preferences)"
  by (simp add: build_search_query_def scenario_preferences_def colors_def rupee_sign_def
      text_defs)

end
